theory Spec2Isabelle
  imports Main
begin

section \<open>Python values, dictionaries and the object heap\<close>

text \<open>
  The tools of \<^verbatim>\<open>src/tools/overnight_signals.py\<close> handle records as Python
  dictionaries with string keys (\<^verbatim>\<open>Dict[str, Any]\<close>). A dictionary is an
  association list, in insertion order. A value is one of the JSON-like Python values; a
  \<open>VRef\<close> is a reference to a dictionary object that lives on the heap, which is how the
  signal and theme records handed out by the store clients are shared with the caller.
\<close>

datatype pyval =
    VNone
  | VBool bool
  | VInt int
  | VStr string
  | VList "pyval list"
  | VDict "(string \<times> pyval) list"
  | VRef nat

type_synonym pydict = "(string \<times> pyval) list"
type_synonym addr = nat
type_synonym heap = "pydict list"

text \<open>An exception of class \<^verbatim>\<open>Exception\<close>, with its class name and message. These
  are the exceptions that the handlers \<^verbatim>\<open>except Exception\<close> of the Firestore client
  catch, and the ones a store query raises; an interpreter exit such as
  \<^verbatim>\<open>KeyboardInterrupt\<close> is not one and is outside the model.\<close>

datatype exn = Exn string string

text \<open>\<^verbatim>\<open>d.get(k)\<close> and \<^verbatim>\<open>k in d\<close>.\<close>

definition dict_get :: "pydict \<Rightarrow> string \<Rightarrow> pyval option" where
  "dict_get d k = map_of d k"

definition has_key :: "pydict \<Rightarrow> string \<Rightarrow> bool" where
  "has_key d k = (dict_get d k \<noteq> None)"

text \<open>\<^verbatim>\<open>d.pop(k, None)\<close> with the popped value thrown away: the entry is removed, a
  missing key is not an error.\<close>

fun dict_pop :: "string \<Rightarrow> pydict \<Rightarrow> pydict" where
  "dict_pop k [] = []"
| "dict_pop k ((k', v) # d) = (if k' = k then dict_pop k d else (k', v) # dict_pop k d)"

text \<open>
  The heap operations the tools perform on dictionary objects. \<^verbatim>\<open>sig.copy()\<close>
  allocates a new object holding the same keys and values and returns its address;
  \<^verbatim>\<open>s.pop(field, None)\<close> updates the object at address \<open>s\<close> in place. An address is
  an index into the heap. Python has no dangling references, so the addresses that the
  store clients hand out are below the length of the heap; the statements that read an
  object through such an address say so.
\<close>

definition heap_copy :: "heap \<Rightarrow> addr \<Rightarrow> addr \<times> heap" where
  "heap_copy h a = (length h, h @ [h ! a])"

definition heap_pop :: "heap \<Rightarrow> addr \<Rightarrow> string \<Rightarrow> heap" where
  "heap_pop h s field = h[s := dict_pop field (h ! s)]"

section \<open>The store clients, as seen by the tools\<close>

text \<open>
  The module holds two clients, \<^verbatim>\<open>fs_client\<close> (Firestore, the primary store) and
  \<^verbatim>\<open>bq_client\<close> (BigQuery, the fallback). The tools only call their methods, and the
  tests replace both by mocks, so the clients are parameters of the model. A method either
  raises or returns; a returned signal or theme list is a list of references to dictionary
  objects on the heap. The BigQuery results for signals and themes are dictionaries read
  with \<^verbatim>\<open>.get("signals", [])\<close>, \<^verbatim>\<open>.get("themes", [])\<close> and
  \<^verbatim>\<open>.get("scan_date", query_date)\<close>: each key may be missing.
  \<open>today\<close> is \<^verbatim>\<open>datetime.now().strftime("%Y-%m-%d")\<close>.
\<close>

record bq_result =
  res_items :: "addr list option"
  res_scan_date :: "string option"

record env =
  today :: string
  fs_get_overnight_signals :: "string \<Rightarrow> string \<Rightarrow> int \<Rightarrow> int \<Rightarrow> exn + addr list"
  bq_get_overnight_signals :: "string \<Rightarrow> string \<Rightarrow> int \<Rightarrow> int \<Rightarrow> exn + bq_result"
  fs_get_signal_detail :: "string \<Rightarrow> string \<Rightarrow> exn + pydict option"
  bq_get_signal_detail :: "string \<Rightarrow> string \<Rightarrow> exn + pydict option"
  fs_get_market_themes :: "string \<Rightarrow> exn + addr list"
  bq_get_market_themes :: "string \<Rightarrow> exn + bq_result"

text \<open>The calls made on the two clients, in order, with their arguments: for the signal
  queries date, direction, min_score and limit; for the detail queries ticker and date.\<close>

datatype call =
    FsSignals string string int int
  | BqSignals string string int int
  | FsDetail string string
  | BqDetail string string
  | FsThemes string
  | BqThemes string

fun call_min_score :: "call \<Rightarrow> int option" where
  "call_min_score (FsSignals d dir s l) = Some s"
| "call_min_score (BqSignals d dir s l) = Some s"
| "call_min_score c = None"

fun call_limit :: "call \<Rightarrow> int option" where
  "call_limit (FsSignals d dir s l) = Some l"
| "call_limit (BqSignals d dir s l) = Some l"
| "call_limit c = None"

fun is_bq_call :: "call \<Rightarrow> bool" where
  "is_bq_call (BqSignals d dir s l) = True"
| "is_bq_call (BqDetail t d) = True"
| "is_bq_call (BqThemes d) = True"
| "is_bq_call c = False"

fun is_fs_call :: "call \<Rightarrow> bool" where
  "is_fs_call (FsSignals d dir s l) = True"
| "is_fs_call (FsDetail t d) = True"
| "is_fs_call (FsThemes d) = True"
| "is_fs_call c = False"

section \<open>The tools\<close>

subsection \<open>The caller's tier\<close>

text \<open>
  \<^verbatim>\<open>_get_user_tier(kwargs)\<close>: \<^verbatim>\<open>kwargs.get("_user_info", {}).get("tier", "FREE")\<close>.
  A \<^verbatim>\<open>_user_info\<close> that is not a dictionary has no \<^verbatim>\<open>get\<close>.
\<close>

definition get_user_tier :: "pydict \<Rightarrow> exn + pyval" where
  "get_user_tier kwargs =
     (case (case dict_get kwargs ''_user_info'' of None \<Rightarrow> VDict [] | Some u \<Rightarrow> u) of
        VDict user_info \<Rightarrow>
          Inr (case dict_get user_info ''tier'' of None \<Rightarrow> VStr ''FREE'' | Some t \<Rightarrow> t)
      | _ \<Rightarrow> Inl (Exn ''AttributeError'' ''object has no attribute get''))"

subsection \<open>get\_signal\_detail\<close>

text \<open>Python truth of an \<^verbatim>\<open>Optional[Dict]\<close>: \<^verbatim>\<open>None\<close> and the empty
  dictionary are false.\<close>

fun truthy :: "pydict option \<Rightarrow> bool" where
  "truthy None = False"
| "truthy (Some d) = (d \<noteq> [])"

definition upgrade_required :: pydict where
  "upgrade_required =
     [(''error'', VStr ''upgrade_required''),
      (''message'', VStr ''Signal deep dives require The Overnight Edge ($49/mo)''),
      (''url'', VStr ''https://gammarips.com/#pricing'')]"

definition signal_not_found :: "string \<Rightarrow> pydict" where
  "signal_not_found ticker = [(''error'', VStr ''Signal not found''), (''ticker'', VStr ticker)]"

text \<open>The end of \<^verbatim>\<open>get_signal_detail\<close>, reached with the primary or the fallback
  result: \<^verbatim>\<open>if not signal: return {"error": "Signal not found", ...}\<close>, then
  \<^verbatim>\<open>return signal\<close>.\<close>

definition detail_result :: "string \<Rightarrow> pydict option \<Rightarrow> pydict" where
  "detail_result ticker signal =
     (case signal of
        None \<Rightarrow> signal_not_found ticker
      | Some d \<Rightarrow> (if d = [] then signal_not_found ticker else d))"

definition get_signal_detail ::
  "env \<Rightarrow> string \<Rightarrow> string \<Rightarrow> pydict \<Rightarrow> (exn + pydict) \<times> call list" where
  "get_signal_detail env ticker date kwargs =
     (case get_user_tier kwargs of
        Inl e \<Rightarrow> (Inl e, [])
      | Inr tier \<Rightarrow>
          (if tier = VStr ''FREE'' then (Inr upgrade_required, [])
           else
             (let query_date = (if date = ''latest'' then today env else date) in
              (case fs_get_signal_detail env ticker query_date of
                 Inl e \<Rightarrow> (Inl e, [FsDetail ticker query_date])
               | Inr signal \<Rightarrow>
                   (if \<not> truthy signal then
                      (case bq_get_signal_detail env ticker date of
                         Inl e \<Rightarrow> (Inl e, [FsDetail ticker query_date, BqDetail ticker date])
                       | Inr signal' \<Rightarrow>
                           (Inr (detail_result ticker signal'),
                            [FsDetail ticker query_date, BqDetail ticker date]))
                    else (Inr (detail_result ticker signal), [FsDetail ticker query_date]))))))"

subsection \<open>get\_overnight\_signals\<close>

text \<open>The query phase: \<^verbatim>\<open>"latest"\<close> becomes today's date, Firestore is asked first,
  and BigQuery is asked, with the \<^verbatim>\<open>date\<close> argument as the caller gave it, when
  Firestore returned an empty list. The result is the signal list and the scan date.\<close>

definition fetch_signals ::
  "env \<Rightarrow> string \<Rightarrow> string \<Rightarrow> int \<Rightarrow> int \<Rightarrow> (exn + addr list \<times> string) \<times> call list" where
  "fetch_signals env date direction min_score limit =
     (let query_date = (if date = ''latest'' then today env else date) in
      (case fs_get_overnight_signals env query_date direction min_score limit of
         Inl e \<Rightarrow> (Inl e, [FsSignals query_date direction min_score limit])
       | Inr signals \<Rightarrow>
           (if signals = [] then
              (case bq_get_overnight_signals env date direction min_score limit of
                 Inl e \<Rightarrow>
                   (Inl e, [FsSignals query_date direction min_score limit,
                            BqSignals date direction min_score limit])
               | Inr bq_res \<Rightarrow>
                   (Inr (case res_items bq_res of None \<Rightarrow> [] | Some items \<Rightarrow> items,
                         case res_scan_date bq_res of None \<Rightarrow> query_date | Some d \<Rightarrow> d),
                    [FsSignals query_date direction min_score limit,
                     BqSignals date direction min_score limit]))
            else (Inr (signals, query_date),
                  [FsSignals query_date direction min_score limit]))))"

text \<open>The fields removed for the free tier, in the order of the source.\<close>

definition paid_fields :: "string list" where
  "paid_fields =
     [''recommended_contract'', ''recommended_strike'', ''recommended_expiration'',
      ''recommended_mid_price'', ''contract_score'', ''technicals'', ''news'',
      ''catalyst_summary'', ''flow_details'']"

text \<open>The inner loop \<^verbatim>\<open>for field in [...]: s.pop(field, None)\<close> on the object at
  address \<open>s\<close>, and the outer loop \<^verbatim>\<open>for sig in signals\<close>, which copies each
  signal, pops the fields from the copy and appends the copy to
  \<^verbatim>\<open>filtered_signals\<close>.\<close>

fun pop_fields :: "string list \<Rightarrow> addr \<Rightarrow> heap \<Rightarrow> heap" where
  "pop_fields [] s h = h"
| "pop_fields (field # rest) s h = pop_fields rest s (heap_pop h s field)"

fun filter_signals :: "addr list \<Rightarrow> addr list \<Rightarrow> heap \<Rightarrow> addr list \<times> heap" where
  "filter_signals [] filtered_signals h = (filtered_signals, h)"
| "filter_signals (sig # signals) filtered_signals h =
     (case heap_copy h sig of
        (s, h1) \<Rightarrow> filter_signals signals (filtered_signals @ [s]) (pop_fields paid_fields s h1))"

text \<open>\<^verbatim>\<open>str(n)\<close> for the count in the upgrade message.\<close>

definition digit_char :: "nat \<Rightarrow> char" where
  "digit_char d = char_of (48 + d)"

function str_nat :: "nat \<Rightarrow> string" where
  "str_nat n = (if n < 10 then [digit_char n] else str_nat (n div 10) @ [digit_char (n mod 10)])"
  by pat_completeness auto
termination
  by (relation "measure id") auto

definition upgrade_block :: "nat \<Rightarrow> pyval" where
  "upgrade_block n =
     VDict
      [(''message'',
        VStr (''You're seeing '' @ str_nat n @
              '' signals (score 7+ only). Unlock all signals, contracts, technicals & AI analysis.'')),
       (''plans'',
        VList
         [VDict [(''name'', VStr ''The Overnight Edge''), (''price'', VStr ''$49/mo''),
                 (''url'', VStr ''https://gammarips.com/#pricing'')],
          VDict [(''name'', VStr ''The War Room''), (''price'', VStr ''$149/mo''),
                 (''url'', VStr ''https://gammarips.com/#pricing'')]])]"

definition signals_response :: "pyval \<Rightarrow> string \<Rightarrow> addr list \<Rightarrow> pydict" where
  "signals_response tier query_date signals =
     [(''scan_date'', VStr query_date),
      (''total_signals'', VInt (int (length signals))),
      (''signals'', VList (map VRef signals))]
     @ (if tier = VStr ''FREE'' then [(''upgrade'', upgrade_block (length signals))] else [])"

definition get_overnight_signals ::
  "env \<Rightarrow> string \<Rightarrow> int \<Rightarrow> int \<Rightarrow> string \<Rightarrow> pydict \<Rightarrow> heap
     \<Rightarrow> (exn + pydict) \<times> heap \<times> call list" where
  "get_overnight_signals env direction min_score limit date kwargs h =
     (case get_user_tier kwargs of
        Inl e \<Rightarrow> (Inl e, h, [])
      | Inr tier \<Rightarrow>
          (let min_score' = (if tier = VStr ''FREE'' then max min_score 7 else min_score);
               limit' = (if tier = VStr ''FREE'' then min limit 10 else limit)
           in (case fetch_signals env date direction min_score' limit' of
                 (Inl e, calls) \<Rightarrow> (Inl e, h, calls)
               | (Inr (signals, query_date), calls) \<Rightarrow>
                   (case (if tier = VStr ''FREE'' then filter_signals signals [] h
                          else (signals, h)) of
                      (signals', h') \<Rightarrow>
                        (Inr (signals_response tier query_date signals'), h', calls)))))"

subsection \<open>get\_market\_themes\<close>

definition fetch_themes :: "env \<Rightarrow> string \<Rightarrow> (exn + addr list \<times> string) \<times> call list" where
  "fetch_themes env date =
     (let query_date = (if date = ''latest'' then today env else date) in
      (case fs_get_market_themes env query_date of
         Inl e \<Rightarrow> (Inl e, [FsThemes query_date])
       | Inr themes \<Rightarrow>
           (if themes = [] then
              (case bq_get_market_themes env date of
                 Inl e \<Rightarrow> (Inl e, [FsThemes query_date, BqThemes date])
               | Inr bq_res \<Rightarrow>
                   (Inr (case res_items bq_res of None \<Rightarrow> [] | Some items \<Rightarrow> items,
                         case res_scan_date bq_res of None \<Rightarrow> query_date | Some d \<Rightarrow> d),
                    [FsThemes query_date, BqThemes date]))
            else (Inr (themes, query_date), [FsThemes query_date]))))"

fun filter_themes :: "addr list \<Rightarrow> addr list \<Rightarrow> heap \<Rightarrow> addr list \<times> heap" where
  "filter_themes [] filtered_themes h = (filtered_themes, h)"
| "filter_themes (theme # themes) filtered_themes h =
     (case heap_copy h theme of
        (t, h1) \<Rightarrow> filter_themes themes (filtered_themes @ [t]) (heap_pop h1 t ''tickers''))"

definition themes_response :: "string \<Rightarrow> addr list \<Rightarrow> pydict" where
  "themes_response query_date themes =
     [(''scan_date'', VStr query_date), (''themes'', VList (map VRef themes))]"

definition get_market_themes ::
  "env \<Rightarrow> string \<Rightarrow> pydict \<Rightarrow> heap \<Rightarrow> (exn + pydict) \<times> heap \<times> call list" where
  "get_market_themes env date kwargs h =
     (case get_user_tier kwargs of
        Inl e \<Rightarrow> (Inl e, h, [])
      | Inr tier \<Rightarrow>
          (case fetch_themes env date of
             (Inl e, calls) \<Rightarrow> (Inl e, h, calls)
           | (Inr (themes, query_date), calls) \<Rightarrow>
               (case (if tier = VStr ''FREE'' then filter_themes themes [] h
                      else (themes, h)) of
                  (themes', h') \<Rightarrow> (Inr (themes_response query_date themes'), h', calls))))"

section \<open>The Firestore client\<close>

text \<open>
  \<^verbatim>\<open>src/data/firestore_client.py\<close>. A query is the chain of builder calls made on the
  collection reference; the Firestore library is the parameter \<open>stream\<close>, which runs a
  query and either raises or yields the matching documents, each as the dictionary
  \<^verbatim>\<open>doc.to_dict()\<close>. Every method body is one \<^verbatim>\<open>try\<close> block with the handler
  \<^verbatim>\<open>except Exception\<close>, so an exception raised anywhere while the query is built or
  its results are read ends in the handler: it is the \<open>Inl\<close> result of \<open>stream\<close>.
\<close>

datatype fs_query =
    Collection string
  | Where fs_query string string pyval
  | OrderBy fs_query string string
  | Limit fs_query int

definition signals_collection :: string where
  "signals_collection = ''overnight_signals''"

definition themes_collection :: string where
  "themes_collection = ''market_themes''"

definition signals_query :: "string \<Rightarrow> string \<Rightarrow> int \<Rightarrow> int \<Rightarrow> fs_query" where
  "signals_query date direction min_score limit =
     (let collection_ref = Collection signals_collection;
          query = Where collection_ref ''scan_date'' ''=='' (VStr date);
          query1 = (if direction \<noteq> ''ALL''
                    then Where query ''direction'' ''=='' (VStr direction) else query);
          query2 = (if min_score > 0
                    then Where query1 ''overnight_score'' ''>='' (VInt min_score) else query1);
          query3 = OrderBy query2 ''overnight_score'' ''DESCENDING''
      in Limit query3 limit)"

definition FirestoreClient_get_overnight_signals ::
  "(fs_query \<Rightarrow> exn + pydict list) \<Rightarrow> string \<Rightarrow> string \<Rightarrow> int \<Rightarrow> int \<Rightarrow> pydict list" where
  "FirestoreClient_get_overnight_signals stream date direction min_score limit =
     (case stream (signals_query date direction min_score limit) of
        Inr docs \<Rightarrow> docs
      | Inl e \<Rightarrow> [])"

definition detail_query :: "string \<Rightarrow> string \<Rightarrow> fs_query" where
  "detail_query ticker date =
     Limit (Where (Where (Collection signals_collection) ''scan_date'' ''=='' (VStr date))
                  ''ticker'' ''=='' (VStr ticker)) 1"

definition FirestoreClient_get_signal_detail ::
  "(fs_query \<Rightarrow> exn + pydict list) \<Rightarrow> string \<Rightarrow> string \<Rightarrow> pydict option" where
  "FirestoreClient_get_signal_detail stream ticker date =
     (case stream (detail_query ticker date) of
        Inr docs \<Rightarrow> (case docs of doc # _ \<Rightarrow> Some doc | [] \<Rightarrow> None)
      | Inl e \<Rightarrow> None)"

definition themes_query :: "string \<Rightarrow> fs_query" where
  "themes_query date =
     Limit (Where (Collection themes_collection) ''scan_date'' ''=='' (VStr date)) 1"

definition FirestoreClient_get_market_themes ::
  "(fs_query \<Rightarrow> exn + pydict list) \<Rightarrow> string \<Rightarrow> pyval" where
  "FirestoreClient_get_market_themes stream date =
     (case stream (themes_query date) of
        Inr docs \<Rightarrow>
          (case docs of
             data # _ \<Rightarrow> (case dict_get data ''themes'' of None \<Rightarrow> VList [] | Some v \<Rightarrow> v)
           | [] \<Rightarrow> VList [])
      | Inl e \<Rightarrow> VList [])"

section \<open>Notions used to state the properties\<close>

text \<open>A dictionary without the entries of the given keys, and the loop shared by
  \<open>filter_signals\<close> and \<open>filter_themes\<close>: copy each object, pop the keys from the
  copy, collect the copies.\<close>

definition strip_fields :: "string list \<Rightarrow> pydict \<Rightarrow> pydict" where
  "strip_fields ks d = filter (\<lambda>kv. fst kv \<notin> set ks) d"

fun copy_strip :: "string list \<Rightarrow> addr list \<Rightarrow> addr list \<Rightarrow> heap \<Rightarrow> addr list \<times> heap" where
  "copy_strip ks [] acc h = (acc, h)"
| "copy_strip ks (a # as) acc h =
     (case heap_copy h a of (s, h1) \<Rightarrow> copy_strip ks as (acc @ [s]) (pop_fields ks s h1))"

text \<open>The tier-adjusted arguments of \<open>get_overnight_signals\<close> and the resolved date, as
  the tools compute them.\<close>

definition effective_min_score :: "pyval \<Rightarrow> int \<Rightarrow> int" where
  "effective_min_score tier min_score = (if tier = VStr ''FREE'' then max min_score 7 else min_score)"

definition effective_limit :: "pyval \<Rightarrow> int \<Rightarrow> int" where
  "effective_limit tier limit = (if tier = VStr ''FREE'' then min limit 10 else limit)"

definition resolve_date :: "env \<Rightarrow> string \<Rightarrow> string" where
  "resolve_date env date = (if date = ''latest'' then today env else date)"

subsection \<open>Concrete inputs, after the scenarios of the test suite\<close>

definition kw_free :: pydict where
  "kw_free = [(''_user_info'', VDict [(''tier'', VStr ''FREE'')])]"

definition kw_edge :: pydict where
  "kw_edge = [(''_user_info'', VDict [(''tier'', VStr ''EDGE'')])]"


definition mock_heap :: heap where
  "mock_heap =
     [[(''ticker'', VStr ''FSLY''), (''overnight_score'', VInt 9), (''technicals'', VStr ''secret'')],
      [(''ticker'', VStr ''AAPL''), (''overnight_score'', VInt 6), (''technicals'', VStr ''secret'')],
      [(''name'', VStr ''AI''), (''tickers'', VList [VStr ''NVDA'', VStr ''AMD''])]]"

text \<open>Firestore answers with the two signals and the theme of \<open>mock_heap\<close>; BigQuery
  would answer with the second signal only.\<close>

definition mock_env :: env where
  "mock_env =
     \<lparr> today = ''2026-01-05'',
       fs_get_overnight_signals = (\<lambda>date direction min_score limit. Inr [0, 1]),
       bq_get_overnight_signals = (\<lambda>date direction min_score limit.
          Inr \<lparr> res_items = Some [1], res_scan_date = Some ''2026-01-02'' \<rparr>),
       fs_get_signal_detail = (\<lambda>ticker date.
          Inr (Some [(''ticker'', VStr ''FSLY''), (''data'', VStr ''full'')])),
       bq_get_signal_detail = (\<lambda>ticker date. Inr None),
       fs_get_market_themes = (\<lambda>date. Inr [2]),
       bq_get_market_themes = (\<lambda>date.
          Inr \<lparr> res_items = Some [2], res_scan_date = Some ''2026-01-02'' \<rparr>) \<rparr>"

text \<open>The same stores with Firestore empty-handed.\<close>

definition mock_env_empty_fs :: env where
  "mock_env_empty_fs =
     mock_env \<lparr> fs_get_overnight_signals := (\<lambda>date direction min_score limit. Inr []),
                fs_get_signal_detail := (\<lambda>ticker date. Inr None),
                fs_get_market_themes := (\<lambda>date. Inr []) \<rparr>"

text \<open>A Firestore library whose every query fails.\<close>

definition failing_stream :: "fs_query \<Rightarrow> exn + pydict list" where
  "failing_stream q = Inl (Exn ''ServiceUnavailable'' ''503 failed to connect'')"

text \<open>The same again with a signal detail in BigQuery only.\<close>

definition mock_env_bq_detail :: env where
  "mock_env_bq_detail =
     mock_env_empty_fs \<lparr> bq_get_signal_detail := (\<lambda>ticker date.
        Inr (Some [(''ticker'', VStr ticker), (''scan_date'', VStr ''2026-01-02'')])) \<rparr>"



text \<open>The two signals of \<open>mock_heap\<close> without their paid fields.\<close>

definition stripped_signals :: heap where
  "stripped_signals =
     [[(''ticker'', VStr ''FSLY''), (''overnight_score'', VInt 9)],
      [(''ticker'', VStr ''AAPL''), (''overnight_score'', VInt 6)]]"

text \<open>A signal that carries every paid field beside its ticker, score and direction, the
  store that returns it, and what is left of it for the free tier.\<close>

definition full_heap :: heap where
  "full_heap =
     [[(''ticker'', VStr ''FSLY''),
       (''recommended_contract'', VStr ''FSLY260220C00012000''),
       (''overnight_score'', VInt 9),
       (''recommended_strike'', VInt 12),
       (''recommended_expiration'', VStr ''2026-02-20''),
       (''direction'', VStr ''BULLISH''),
       (''recommended_mid_price'', VInt 2),
       (''contract_score'', VInt 8),
       (''technicals'', VDict [(''rsi'', VInt 61)]),
       (''news'', VList [VStr ''Guidance raised'']),
       (''catalyst_summary'', VStr ''Earnings beat''),
       (''flow_details'', VDict [(''call_volume'', VInt 41000)])]]"

definition full_env :: env where
  "full_env =
     mock_env \<lparr> fs_get_overnight_signals := (\<lambda>date direction min_score limit. Inr [0]) \<rparr>"

definition full_stripped :: pydict where
  "full_stripped =
     [(''ticker'', VStr ''FSLY''), (''overnight_score'', VInt 9), (''direction'', VStr ''BULLISH'')]"

section \<open>Dictionaries and the copy loop\<close>

lemma dict_pop_filter: "dict_pop k d = filter (\<lambda>kv. fst kv \<noteq> k) d"
  by (induction d) auto

lemma strip_fields_Nil: "strip_fields [] d = d"
  by (simp add: strip_fields_def)

lemma strip_fields_Cons: "strip_fields (k # ks) d = strip_fields ks (dict_pop k d)"
  by (auto simp: strip_fields_def dict_pop_filter intro: filter_cong)

lemma has_key_strip: "k \<in> set ks \<Longrightarrow> \<not> has_key (strip_fields ks d) k"
  by (auto simp: has_key_def dict_get_def strip_fields_def map_of_eq_None_iff)

lemma dict_get_strip: "k \<notin> set ks \<Longrightarrow> dict_get (strip_fields ks d) k = dict_get d k"
  by (induction d) (auto simp: dict_get_def strip_fields_def)

lemma heap_pop_last: "heap_pop (h @ [x]) (length h) k = h @ [dict_pop k x]"
  by (simp add: heap_pop_def)

lemma pop_fields_last: "pop_fields ks (length h) (h @ [x]) = h @ [strip_fields ks x]"
  by (induction ks arbitrary: x) (simp_all add: heap_pop_last strip_fields_Nil strip_fields_Cons)

text \<open>One round of the loop appends the stripped copy and touches nothing else.\<close>

lemma copy_strip_step:
  "copy_strip ks (a # as) acc h =
   copy_strip ks as (acc @ [length h]) (h @ [strip_fields ks (h ! a)])"
  by (simp add: heap_copy_def pop_fields_last)

lemma copy_strip_length: "length (snd (copy_strip ks as acc h)) = length h + length as"
  by (induction as arbitrary: acc h) (simp_all add: copy_strip_step del: copy_strip.simps(2))

lemma copy_strip_take: "take (length h) (snd (copy_strip ks as acc h)) = h"
proof (induction as arbitrary: acc h)
  case Nil
  show ?case by simp
next
  case (Cons a as)
  let ?h2 = "h @ [strip_fields ks (h ! a)]"
  let ?r = "snd (copy_strip ks as (acc @ [length h]) ?h2)"
  have "take (length ?h2) ?r = ?h2" by (rule Cons.IH)
  then have "take (length h) (take (length ?h2) ?r) = take (length h) ?h2" by simp
  then have "take (length h) ?r = h" by (simp add: min_def)
  then show ?case by (simp only: copy_strip_step)
qed

lemma copy_strip_refs: "fst (copy_strip ks as acc h) = acc @ [length h ..< length h + length as]"
proof (induction as arbitrary: acc h)
  case Nil
  show ?case by simp
next
  case (Cons a as)
  show ?case
    by (simp only: copy_strip_step Cons.IH) (simp add: upt_rec)
qed

lemma copy_strip_stripped:
  "i < length as \<Longrightarrow> k \<in> set ks \<Longrightarrow>
   \<not> has_key (snd (copy_strip ks as acc h) ! (length h + i)) k"
proof (induction as arbitrary: acc h i)
  case Nil
  then show ?case by simp
next
  case (Cons a as)
  let ?h2 = "h @ [strip_fields ks (h ! a)]"
  let ?r = "snd (copy_strip ks as (acc @ [length h]) ?h2)"
  show ?case
  proof (cases i)
    case 0
    have "take (length ?h2) ?r = ?h2" by (rule copy_strip_take)
    then have "take (length ?h2) ?r ! length h = ?h2 ! length h" by simp
    then have "?r ! length h = strip_fields ks (h ! a)" by simp
    with Cons.prems(2) 0 show ?thesis
      by (simp only: copy_strip_step) (simp add: has_key_strip)
  next
    case (Suc j)
    with Cons.prems have "j < length as" by simp
    from Cons.IH [OF this Cons.prems(2), of "acc @ [length h]" ?h2] Suc
    show ?thesis by (simp only: copy_strip_step) simp
  qed
qed

text \<open>When every reference points into the heap, the loop appends exactly the stripped
  copies of the objects referred to.\<close>

lemma copy_strip_heap:
  "\<forall>a \<in> set as. a < length h \<Longrightarrow>
   snd (copy_strip ks as acc h) = h @ map (\<lambda>a. strip_fields ks (h ! a)) as"
proof (induction as arbitrary: acc h)
  case Nil
  show ?case by simp
next
  case (Cons a as)
  let ?h2 = "h @ [strip_fields ks (h ! a)]"
  from Cons.prems have wf: "\<forall>b \<in> set as. b < length ?h2" by auto
  from Cons.prems
  have eq: "map (\<lambda>b. strip_fields ks (?h2 ! b)) as = map (\<lambda>b. strip_fields ks (h ! b)) as"
    by (auto simp: nth_append)
  show ?case
    by (simp only: copy_strip_step Cons.IH [OF wf] eq) simp
qed

lemma copy_strip_nth:
  "i < length as \<Longrightarrow> as ! i < length h \<Longrightarrow>
   snd (copy_strip ks as acc h) ! (length h + i) = strip_fields ks (h ! (as ! i))"
proof (induction as arbitrary: acc h i)
  case Nil
  then show ?case by simp
next
  case (Cons a as)
  let ?h2 = "h @ [strip_fields ks (h ! a)]"
  let ?r = "snd (copy_strip ks as (acc @ [length h]) ?h2)"
  show ?case
  proof (cases i)
    case 0
    have "take (length ?h2) ?r = ?h2" by (rule copy_strip_take)
    then have "take (length ?h2) ?r ! length h = ?h2 ! length h" by simp
    then have "?r ! length h = strip_fields ks (h ! a)" by simp
    with 0 show ?thesis by (simp only: copy_strip_step) simp
  next
    case (Suc j)
    with Cons.prems have j: "j < length as" and a: "as ! j < length h" by simp_all
    from a have a2: "as ! j < length ?h2" by simp
    from Cons.IH [OF j a2, of "acc @ [length h]"] a Suc
    show ?thesis by (simp only: copy_strip_step) (simp add: nth_append)
  qed
qed

lemma copy_strip_old:
  "a < length h \<Longrightarrow> snd (copy_strip ks as acc h) ! a = h ! a"
proof -
  assume a: "a < length h"
  have "take (length h) (snd (copy_strip ks as acc h)) ! a = h ! a"
    by (simp only: copy_strip_take)
  with a show ?thesis by simp
qed

lemma filter_signals_copy_strip: "filter_signals sigs acc h = copy_strip paid_fields sigs acc h"
  by (induction sigs arbitrary: acc h) (simp_all split: prod.splits)

lemma filter_themes_copy_strip: "filter_themes ts acc h = copy_strip [''tickers''] ts acc h"
  by (induction ts arbitrary: acc h) (simp_all split: prod.splits)

section \<open>The calls made by the tools\<close>

lemma fetch_signals_calls:
  "snd (fetch_signals env date direction ms l) =
     FsSignals (resolve_date env date) direction ms l #
     (if fs_get_overnight_signals env (resolve_date env date) direction ms l = Inr []
      then [BqSignals date direction ms l] else [])"
  by (simp add: fetch_signals_def resolve_date_def Let_def split: sum.splits)

lemma signals_calls:
  "get_user_tier kwargs = Inr tier \<Longrightarrow>
   snd (snd (get_overnight_signals env direction min_score limit date kwargs h)) =
   snd (fetch_signals env date direction
          (effective_min_score tier min_score) (effective_limit tier limit))"
  by (simp add: get_overnight_signals_def effective_min_score_def effective_limit_def Let_def
           split: prod.splits sum.splits)

section \<open>Tier restrictions on the signal query\<close>

text \<open>
  Claim C1. For a caller of the FREE tier, \<open>get_overnight_signals\<close> queries at least one
  store, and every store query it makes carries a minimum score of at least 7 and a limit
  of at most 10, whatever the caller asked for. The score is only raised (a caller's score
  of 7 or more is passed as it is, a lower one becomes 7) and the limit is only lowered (a
  caller's limit of 10 or less is passed as it is, a higher one becomes 10).
\<close>

theorem free_tier_query_bounds:
  assumes "get_user_tier kwargs = Inr (VStr ''FREE'')"
  shows "snd (snd (get_overnight_signals env direction min_score limit date kwargs h)) \<noteq> [] \<and>
         (\<forall>c \<in> set (snd (snd (get_overnight_signals env direction min_score limit date kwargs h))).
            \<exists>s l. call_min_score c = Some s \<and> call_limit c = Some l \<and>
                  7 \<le> s \<and> l \<le> 10 \<and> min_score \<le> s \<and> l \<le> limit \<and>
                  (7 \<le> min_score \<longrightarrow> s = min_score) \<and> (min_score \<le> 7 \<longrightarrow> s = 7) \<and>
                  (limit \<le> 10 \<longrightarrow> l = limit) \<and> (10 \<le> limit \<longrightarrow> l = 10))"
  unfolding signals_calls [OF assms] fetch_signals_calls
  by (auto simp: effective_min_score_def effective_limit_def)

text \<open>The two scenarios of the specification: a score of 5 and a limit of 50 become 7 and
  10 (on both stores), a score of 9 and a limit of 3 are kept.\<close>

theorem free_tier_query_bounds_witness:
  "get_user_tier kw_free = Inr (VStr ''FREE'') \<and>
   snd (snd (get_overnight_signals mock_env_empty_fs ''ALL'' 5 50 ''latest'' kw_free mock_heap)) =
     [FsSignals ''2026-01-05'' ''ALL'' 7 10, BqSignals ''latest'' ''ALL'' 7 10] \<and>
   snd (snd (get_overnight_signals mock_env ''BULLISH'' 9 3 ''2026-01-02'' kw_free mock_heap)) =
     [FsSignals ''2026-01-02'' ''BULLISH'' 9 3]"
proof -
  have t: "get_user_tier kw_free = Inr (VStr ''FREE'')"
    by (simp add: get_user_tier_def kw_free_def dict_get_def)
  note a = free_tier_query_bounds [OF t, of mock_env_empty_fs "''ALL''" 5 50 "''latest''" mock_heap]
  note b = free_tier_query_bounds [OF t, of mock_env "''BULLISH''" 9 3 "''2026-01-02''" mock_heap]
  have c1: "snd (snd (get_overnight_signals mock_env_empty_fs ''ALL'' 5 50 ''latest'' kw_free mock_heap)) =
     [FsSignals ''2026-01-05'' ''ALL'' 7 10, BqSignals ''latest'' ''ALL'' 7 10]"
    by (simp add: signals_calls [OF t] fetch_signals_calls effective_min_score_def
          effective_limit_def resolve_date_def mock_env_empty_fs_def mock_env_def)
  have c2: "snd (snd (get_overnight_signals mock_env ''BULLISH'' 9 3 ''2026-01-02'' kw_free mock_heap)) =
     [FsSignals ''2026-01-02'' ''BULLISH'' 9 3]"
    by (simp add: signals_calls [OF t] fetch_signals_calls effective_min_score_def
          effective_limit_def resolve_date_def mock_env_def)
  from a b t c1 c2 show ?thesis by simp
qed

section \<open>The access gate of the signal detail\<close>

text \<open>
  Claim C3. For a caller of the FREE tier, \<open>get_signal_detail\<close> returns, for every ticker
  and date and whatever the stores hold, the dictionary whose \<open>error\<close> entry is
  \<open>upgrade_required\<close>, and it calls neither the Firestore client nor the BigQuery client:
  the list of calls is empty.
\<close>

theorem detail_denied_for_free_tier:
  assumes "get_user_tier kwargs = Inr (VStr ''FREE'')"
  shows "get_signal_detail env ticker date kwargs = (Inr upgrade_required, []) \<and>
         dict_get upgrade_required ''error'' = Some (VStr ''upgrade_required'')"
  using assms by (simp add: get_signal_detail_def upgrade_required_def dict_get_def)

theorem detail_denied_for_free_tier_witness:
  "get_user_tier kw_free = Inr (VStr ''FREE'') \<and>
   get_signal_detail mock_env ''FSLY'' ''latest'' kw_free = (Inr upgrade_required, []) \<and>
   dict_get upgrade_required ''error'' = Some (VStr ''upgrade_required'')"
proof -
  have t: "get_user_tier kw_free = Inr (VStr ''FREE'')"
    by (simp add: get_user_tier_def kw_free_def dict_get_def)
  from detail_denied_for_free_tier [OF t, of mock_env "''FSLY''" "''latest''"] t
  show ?thesis by simp
qed

section \<open>The Firestore client fails soft\<close>

text \<open>
  Claim C6. When the Firestore query of a method raises an exception, the method returns
  normally: \<open>get_overnight_signals\<close> returns the empty list, \<open>get_signal_detail\<close>
  returns \<open>None\<close> and \<open>get_market_themes\<close> returns the empty list. No method of the
  client has an error result.
\<close>

theorem firestore_fails_soft:
  "(stream (signals_query date direction min_score limit) = Inl e \<longrightarrow>
      FirestoreClient_get_overnight_signals stream date direction min_score limit = []) \<and>
   (stream (detail_query ticker date) = Inl e \<longrightarrow>
      FirestoreClient_get_signal_detail stream ticker date = None) \<and>
   (stream (themes_query date) = Inl e \<longrightarrow>
      FirestoreClient_get_market_themes stream date = VList [])"
  by (simp add: FirestoreClient_get_overnight_signals_def FirestoreClient_get_signal_detail_def
        FirestoreClient_get_market_themes_def)

theorem firestore_fails_soft_witness:
  "failing_stream (signals_query ''2026-01-05'' ''ALL'' 7 10) =
     Inl (Exn ''ServiceUnavailable'' ''503 failed to connect'') \<and>
   failing_stream (detail_query ''FSLY'' ''2026-01-05'') =
     Inl (Exn ''ServiceUnavailable'' ''503 failed to connect'') \<and>
   failing_stream (themes_query ''2026-01-05'') =
     Inl (Exn ''ServiceUnavailable'' ''503 failed to connect'') \<and>
   FirestoreClient_get_overnight_signals failing_stream ''2026-01-05'' ''ALL'' 7 10 = [] \<and>
   FirestoreClient_get_signal_detail failing_stream ''FSLY'' ''2026-01-05'' = None \<and>
   FirestoreClient_get_market_themes failing_stream ''2026-01-05'' = VList []"
  using firestore_fails_soft [of failing_stream "''2026-01-05''" "''ALL''" 7 10
          "Exn ''ServiceUnavailable'' ''503 failed to connect''" "''FSLY''"]
  by (simp add: failing_stream_def)

section \<open>The tools in terms of their query phase\<close>

lemma dict_get_signals_response:
  "dict_get (signals_response tier qd sigs) ''signals'' = Some (VList (map VRef sigs))"
  by (simp add: signals_response_def dict_get_def)

lemma dict_get_signals_scan_date:
  "dict_get (signals_response tier qd sigs) ''scan_date'' = Some (VStr qd)"
  by (simp add: signals_response_def dict_get_def)

lemma get_overnight_signals_eq:
  assumes "get_user_tier kwargs = Inr tier"
  shows "get_overnight_signals env direction min_score limit date kwargs h =
     (case fetch_signals env date direction
             (effective_min_score tier min_score) (effective_limit tier limit) of
        (Inl e, calls) \<Rightarrow> (Inl e, h, calls)
      | (Inr (sigs, qd), calls) \<Rightarrow>
          (if tier = VStr ''FREE''
           then (Inr (signals_response tier qd [length h ..< length h + length sigs]),
                 snd (copy_strip paid_fields sigs [] h), calls)
           else (Inr (signals_response tier qd sigs), h, calls)))"
proof -
  have "filter_signals sigs [] h =
          ([length h ..< length h + length sigs], snd (copy_strip paid_fields sigs [] h))" for sigs
    using copy_strip_refs [of paid_fields sigs "[]" h]
    by (simp add: filter_signals_copy_strip prod_eq_iff)
  with assms show ?thesis
    by (simp add: get_overnight_signals_def effective_min_score_def effective_limit_def Let_def
          split: prod.splits sum.splits)
qed

lemma get_market_themes_eq:
  assumes "get_user_tier kwargs = Inr tier"
  shows "get_market_themes env date kwargs h =
     (case fetch_themes env date of
        (Inl e, calls) \<Rightarrow> (Inl e, h, calls)
      | (Inr (themes, qd), calls) \<Rightarrow>
          (if tier = VStr ''FREE''
           then (Inr (themes_response qd [length h ..< length h + length themes]),
                 snd (copy_strip [''tickers''] themes [] h), calls)
           else (Inr (themes_response qd themes), h, calls)))"
proof -
  have "filter_themes ts [] h =
          ([length h ..< length h + length ts], snd (copy_strip [''tickers''] ts [] h))" for ts
    using copy_strip_refs [of "[''tickers'']" ts "[]" h]
    by (simp add: filter_themes_copy_strip prod_eq_iff)
  with assms show ?thesis
    by (simp add: get_market_themes_def split: prod.splits sum.splits)
qed

section \<open>Redaction of the signals\<close>

text \<open>
  Claim C2. When \<open>get_overnight_signals\<close> returns a response, its \<open>signals\<close> entry
  lists one object per signal fetched from the stores. For a caller of the FREE tier, none
  of the paid fields (\<open>recommended_contract\<close>, \<open>recommended_strike\<close>,
  \<open>recommended_expiration\<close>, \<open>recommended_mid_price\<close>, \<open>contract_score\<close>,
  \<open>technicals\<close>, \<open>news\<close>, \<open>catalyst_summary\<close>, \<open>flow_details\<close>) is a key of any
  listed object; the statement names the nine keys one by one. For every other tier the
  listed objects are the very objects the store returned and the heap is as it was, so
  every attribute of every signal is unchanged.
\<close>

theorem signal_redaction:
  assumes tier: "get_user_tier kwargs = Inr tier"
      and res: "get_overnight_signals env direction min_score limit date kwargs h = (Inr resp, h', calls)"
  shows "\<exists>sigs qd refs.
           fst (fetch_signals env date direction
                  (effective_min_score tier min_score) (effective_limit tier limit)) = Inr (sigs, qd) \<and>
           dict_get resp ''signals'' = Some (VList (map VRef refs)) \<and>
           length refs = length sigs \<and>
           (if tier = VStr ''FREE''
            then (\<forall>r \<in> set refs.
                    r < length h' \<and>
                    \<not> has_key (h' ! r) ''recommended_contract'' \<and>
                    \<not> has_key (h' ! r) ''recommended_strike'' \<and>
                    \<not> has_key (h' ! r) ''recommended_expiration'' \<and>
                    \<not> has_key (h' ! r) ''recommended_mid_price'' \<and>
                    \<not> has_key (h' ! r) ''contract_score'' \<and>
                    \<not> has_key (h' ! r) ''technicals'' \<and>
                    \<not> has_key (h' ! r) ''news'' \<and>
                    \<not> has_key (h' ! r) ''catalyst_summary'' \<and>
                    \<not> has_key (h' ! r) ''flow_details'')
            else refs = sigs \<and> h' = h)"
proof -
  let ?f = "fetch_signals env date direction
              (effective_min_score tier min_score) (effective_limit tier limit)"
  from res obtain sigs qd where f: "?f = (Inr (sigs, qd), calls)"
    unfolding get_overnight_signals_eq [OF tier]
    by (auto split: prod.splits sum.splits if_splits)
  show ?thesis
  proof (cases "tier = VStr ''FREE''")
    case True
    let ?refs = "[length h ..< length h + length sigs]"
    from res f True have resp: "resp = signals_response tier qd ?refs"
      and h': "h' = snd (copy_strip paid_fields sigs [] h)"
      unfolding get_overnight_signals_eq [OF tier] by simp_all
    have "r < length h' \<and>
          \<not> has_key (h' ! r) ''recommended_contract'' \<and>
          \<not> has_key (h' ! r) ''recommended_strike'' \<and>
          \<not> has_key (h' ! r) ''recommended_expiration'' \<and>
          \<not> has_key (h' ! r) ''recommended_mid_price'' \<and>
          \<not> has_key (h' ! r) ''contract_score'' \<and>
          \<not> has_key (h' ! r) ''technicals'' \<and>
          \<not> has_key (h' ! r) ''news'' \<and>
          \<not> has_key (h' ! r) ''catalyst_summary'' \<and>
          \<not> has_key (h' ! r) ''flow_details''" if "r \<in> set ?refs" for r
    proof -
      from that obtain i where i: "i < length sigs" and r: "r = length h + i"
        by (auto simp: nat_le_iff_add)
      have gone: "\<not> has_key (h' ! r) k" if "k \<in> set paid_fields" for k
        using i r that by (simp add: h' copy_strip_stripped)
      have len: "r < length h'"
        using i r by (simp add: h' copy_strip_length)
      have "\<not> has_key (h' ! r) ''recommended_contract''"
           "\<not> has_key (h' ! r) ''recommended_strike''"
           "\<not> has_key (h' ! r) ''recommended_expiration''"
           "\<not> has_key (h' ! r) ''recommended_mid_price''"
           "\<not> has_key (h' ! r) ''contract_score''"
           "\<not> has_key (h' ! r) ''technicals''"
           "\<not> has_key (h' ! r) ''news''"
           "\<not> has_key (h' ! r) ''catalyst_summary''"
           "\<not> has_key (h' ! r) ''flow_details''"
        by (rule gone, simp add: paid_fields_def)+
      with len show ?thesis by simp
    qed
    with f True resp show ?thesis
      by (intro exI [of _ sigs] exI [of _ qd] exI [of _ ?refs])
         (simp add: dict_get_signals_response)
  next
    case False
    with res f have "resp = signals_response tier qd sigs" and "h' = h"
      unfolding get_overnight_signals_eq [OF tier] by simp_all
    with f False show ?thesis
      by (intro exI [of _ sigs] exI [of _ qd] exI [of _ sigs])
         (simp add: dict_get_signals_response)
  qed
qed

subsection \<open>The test scenario, evaluated\<close>

lemma tier_kw_free: "get_user_tier kw_free = Inr (VStr ''FREE'')"
  by (simp add: get_user_tier_def kw_free_def dict_get_def)

lemma tier_kw_edge: "get_user_tier kw_edge = Inr (VStr ''EDGE'')"
  by (simp add: get_user_tier_def kw_edge_def dict_get_def)

lemma mock_fetch_signals:
  "fetch_signals mock_env ''latest'' ''ALL'' ms l =
     (Inr ([0, 1], ''2026-01-05''), [FsSignals ''2026-01-05'' ''ALL'' ms l])"
  by (simp add: fetch_signals_def mock_env_def Let_def)

lemma mock_strip_signals:
  "snd (copy_strip paid_fields [0, 1] [] mock_heap) = mock_heap @ stripped_signals"
proof -
  have "\<forall>a \<in> set [0, 1::nat]. a < length mock_heap" by (simp add: mock_heap_def)
  then have "snd (copy_strip paid_fields [0, 1] [] mock_heap) =
      mock_heap @ map (\<lambda>a. strip_fields paid_fields (mock_heap ! a)) [0, 1]"
    by (rule copy_strip_heap)
  also have "map (\<lambda>a. strip_fields paid_fields (mock_heap ! a)) [0, 1] = stripped_signals"
    by (simp add: mock_heap_def strip_fields_def paid_fields_def stripped_signals_def)
  finally show ?thesis .
qed

lemma mock_free_signals:
  "get_overnight_signals mock_env ''ALL'' 5 20 ''latest'' kw_free mock_heap =
     (Inr (signals_response (VStr ''FREE'') ''2026-01-05'' [3, 4]),
      mock_heap @ stripped_signals,
      [FsSignals ''2026-01-05'' ''ALL'' 7 10])"
proof -
  have len: "[length mock_heap ..< length mock_heap + length [0, 1::nat]] = [3, 4]"
    by (simp add: mock_heap_def upt_rec)
  have eff: "effective_min_score (VStr ''FREE'') 5 = 7" "effective_limit (VStr ''FREE'') 20 = 10"
    by (simp_all add: effective_min_score_def effective_limit_def)
  show ?thesis
    unfolding get_overnight_signals_eq [OF tier_kw_free] eff mock_fetch_signals
    by (simp only: prod.case sum.case len mock_strip_signals refl if_True)
qed

lemma mock_edge_signals:
  "get_overnight_signals mock_env ''ALL'' 5 20 ''latest'' kw_edge mock_heap =
     (Inr (signals_response (VStr ''EDGE'') ''2026-01-05'' [0, 1]),
      mock_heap,
      [FsSignals ''2026-01-05'' ''ALL'' 5 20])"
proof -
  have eff: "effective_min_score (VStr ''EDGE'') 5 = 5" "effective_limit (VStr ''EDGE'') 20 = 20"
    by (simp_all add: effective_min_score_def effective_limit_def)
  have ne: "(VStr ''EDGE'' = VStr ''FREE'') = False" by simp
  show ?thesis
    unfolding get_overnight_signals_eq [OF tier_kw_edge] eff mock_fetch_signals
    by (simp only: prod.case sum.case ne if_False)
qed

lemma full_free_signals:
  "get_overnight_signals full_env ''ALL'' 5 20 ''latest'' kw_free full_heap =
     (Inr (signals_response (VStr ''FREE'') ''2026-01-05'' [1]),
      full_heap @ [full_stripped],
      [FsSignals ''2026-01-05'' ''ALL'' 7 10])"
proof -
  have fetch: "fetch_signals full_env ''latest'' ''ALL'' 7 10 =
      (Inr ([0], ''2026-01-05''), [FsSignals ''2026-01-05'' ''ALL'' 7 10])"
    by (simp add: fetch_signals_def full_env_def mock_env_def Let_def)
  have len: "[length full_heap ..< length full_heap + length [0::nat]] = [1]"
    by (simp add: full_heap_def)
  have eff: "effective_min_score (VStr ''FREE'') 5 = 7" "effective_limit (VStr ''FREE'') 20 = 10"
    by (simp_all add: effective_min_score_def effective_limit_def)
  have "\<forall>a \<in> set [0::nat]. a < length full_heap" by (simp add: full_heap_def)
  then have "snd (copy_strip paid_fields [0] [] full_heap) =
      full_heap @ map (\<lambda>a. strip_fields paid_fields (full_heap ! a)) [0]"
    by (rule copy_strip_heap)
  also have "map (\<lambda>a. strip_fields paid_fields (full_heap ! a)) [0] = [full_stripped]"
    by (simp add: full_heap_def strip_fields_def paid_fields_def full_stripped_def)
  finally have strip: "snd (copy_strip paid_fields [0] [] full_heap) = full_heap @ [full_stripped]" .
  show ?thesis
    unfolding get_overnight_signals_eq [OF tier_kw_free] eff fetch
    by (simp only: prod.case sum.case len strip refl if_True)
qed

text \<open>A signal with all nine paid fields, asked for by a FREE caller: the store's object
  has each of them, the object in the response has none and keeps the other three. Then
  the scenario of the test suite: two signals with a \<open>technicals\<close> field, asked for by a
  FREE caller and by an EDGE caller.\<close>

theorem signal_redaction_witness:
  "get_user_tier kw_free = Inr (VStr ''FREE'') \<and>
   get_overnight_signals full_env ''ALL'' 5 20 ''latest'' kw_free full_heap =
     (Inr (signals_response (VStr ''FREE'') ''2026-01-05'' [1]),
      full_heap @ [full_stripped], [FsSignals ''2026-01-05'' ''ALL'' 7 10]) \<and>
   dict_get (signals_response (VStr ''FREE'') ''2026-01-05'' [1]) ''signals'' =
     Some (VList [VRef 1]) \<and>
   has_key (full_heap ! 0) ''recommended_contract'' \<and>
   has_key (full_heap ! 0) ''recommended_strike'' \<and>
   has_key (full_heap ! 0) ''recommended_expiration'' \<and>
   has_key (full_heap ! 0) ''recommended_mid_price'' \<and>
   has_key (full_heap ! 0) ''contract_score'' \<and>
   has_key (full_heap ! 0) ''technicals'' \<and>
   has_key (full_heap ! 0) ''news'' \<and>
   has_key (full_heap ! 0) ''catalyst_summary'' \<and>
   has_key (full_heap ! 0) ''flow_details'' \<and>
   \<not> has_key ((full_heap @ [full_stripped]) ! 1) ''recommended_contract'' \<and>
   \<not> has_key ((full_heap @ [full_stripped]) ! 1) ''recommended_strike'' \<and>
   \<not> has_key ((full_heap @ [full_stripped]) ! 1) ''recommended_expiration'' \<and>
   \<not> has_key ((full_heap @ [full_stripped]) ! 1) ''recommended_mid_price'' \<and>
   \<not> has_key ((full_heap @ [full_stripped]) ! 1) ''contract_score'' \<and>
   \<not> has_key ((full_heap @ [full_stripped]) ! 1) ''technicals'' \<and>
   \<not> has_key ((full_heap @ [full_stripped]) ! 1) ''news'' \<and>
   \<not> has_key ((full_heap @ [full_stripped]) ! 1) ''catalyst_summary'' \<and>
   \<not> has_key ((full_heap @ [full_stripped]) ! 1) ''flow_details'' \<and>
   (full_heap @ [full_stripped]) ! 1 =
     [(''ticker'', VStr ''FSLY''), (''overnight_score'', VInt 9), (''direction'', VStr ''BULLISH'')] \<and>
   get_overnight_signals mock_env ''ALL'' 5 20 ''latest'' kw_free mock_heap =
     (Inr (signals_response (VStr ''FREE'') ''2026-01-05'' [3, 4]),
      mock_heap @ stripped_signals, [FsSignals ''2026-01-05'' ''ALL'' 7 10]) \<and>
   \<not> has_key ((mock_heap @ stripped_signals) ! 3) ''technicals'' \<and>
   \<not> has_key ((mock_heap @ stripped_signals) ! 4) ''technicals'' \<and>
   get_user_tier kw_edge = Inr (VStr ''EDGE'') \<and>
   get_overnight_signals mock_env ''ALL'' 5 20 ''latest'' kw_edge mock_heap =
     (Inr (signals_response (VStr ''EDGE'') ''2026-01-05'' [0, 1]),
      mock_heap, [FsSignals ''2026-01-05'' ''ALL'' 5 20]) \<and>
   dict_get (signals_response (VStr ''EDGE'') ''2026-01-05'' [0, 1]) ''signals'' =
     Some (VList [VRef 0, VRef 1]) \<and>
   has_key (mock_heap ! 0) ''technicals''"
proof -
  note a = signal_redaction [OF tier_kw_free full_free_signals]
  note b = signal_redaction [OF tier_kw_free mock_free_signals]
  note c = signal_redaction [OF tier_kw_edge mock_edge_signals]
  have r1: "dict_get (signals_response (VStr ''FREE'') ''2026-01-05'' [1]) ''signals'' =
      Some (VList (map VRef [1]))"
    by (rule dict_get_signals_response)
  have r2: "dict_get (signals_response (VStr ''FREE'') ''2026-01-05'' [3, 4]) ''signals'' =
      Some (VList (map VRef [3, 4]))"
    by (rule dict_get_signals_response)
  from a r1 have gone1:
    "\<not> has_key ((full_heap @ [full_stripped]) ! 1) ''recommended_contract''"
    "\<not> has_key ((full_heap @ [full_stripped]) ! 1) ''recommended_strike''"
    "\<not> has_key ((full_heap @ [full_stripped]) ! 1) ''recommended_expiration''"
    "\<not> has_key ((full_heap @ [full_stripped]) ! 1) ''recommended_mid_price''"
    "\<not> has_key ((full_heap @ [full_stripped]) ! 1) ''contract_score''"
    "\<not> has_key ((full_heap @ [full_stripped]) ! 1) ''technicals''"
    "\<not> has_key ((full_heap @ [full_stripped]) ! 1) ''news''"
    "\<not> has_key ((full_heap @ [full_stripped]) ! 1) ''catalyst_summary''"
    "\<not> has_key ((full_heap @ [full_stripped]) ! 1) ''flow_details''"
    by auto
  from b r2 have gone2:
    "\<not> has_key ((mock_heap @ stripped_signals) ! 3) ''technicals''"
    "\<not> has_key ((mock_heap @ stripped_signals) ! 4) ''technicals''"
    by auto
  have orig:
    "has_key (full_heap ! 0) ''recommended_contract''"
    "has_key (full_heap ! 0) ''recommended_strike''"
    "has_key (full_heap ! 0) ''recommended_expiration''"
    "has_key (full_heap ! 0) ''recommended_mid_price''"
    "has_key (full_heap ! 0) ''contract_score''"
    "has_key (full_heap ! 0) ''technicals''"
    "has_key (full_heap ! 0) ''news''"
    "has_key (full_heap ! 0) ''catalyst_summary''"
    "has_key (full_heap ! 0) ''flow_details''"
    "has_key (mock_heap ! 0) ''technicals''"
    by (simp_all add: full_heap_def mock_heap_def has_key_def dict_get_def)
  have kept: "(full_heap @ [full_stripped]) ! 1 =
     [(''ticker'', VStr ''FSLY''), (''overnight_score'', VInt 9), (''direction'', VStr ''BULLISH'')]"
    by (simp add: full_heap_def full_stripped_def)
  from c tier_kw_free tier_kw_edge full_free_signals mock_free_signals mock_edge_signals
    gone1 gone2 orig kept
  show ?thesis by (simp add: dict_get_signals_response)
qed

section \<open>The fallback to BigQuery\<close>

lemma fetch_signals_fallback:
  "fs_get_overnight_signals env (resolve_date env date) direction ms l = Inr [] \<Longrightarrow>
   bq_get_overnight_signals env date direction ms l = Inr bq_res \<Longrightarrow>
   fetch_signals env date direction ms l =
     (Inr (case res_items bq_res of None \<Rightarrow> [] | Some items \<Rightarrow> items,
           case res_scan_date bq_res of None \<Rightarrow> resolve_date env date | Some d \<Rightarrow> d),
      [FsSignals (resolve_date env date) direction ms l, BqSignals date direction ms l])"
  unfolding fetch_signals_def resolve_date_def Let_def by simp

lemma signals_result_scan_date:
  assumes tier: "get_user_tier kwargs = Inr tier"
      and f: "fst (fetch_signals env date direction
             (effective_min_score tier min_score) (effective_limit tier limit)) = Inr (sigs, qd)"
  shows "\<exists>resp. fst (get_overnight_signals env direction min_score limit date kwargs h) = Inr resp \<and>
                dict_get resp ''scan_date'' = Some (VStr qd)"
  using f unfolding get_overnight_signals_eq [OF tier]
  by (auto simp: dict_get_signals_scan_date split: prod.splits sum.splits)

text \<open>
  Claim C4. In \<open>get_overnight_signals\<close>, when Firestore returns the empty list, BigQuery
  is called exactly once, after Firestore, with the \<open>date\<close> argument exactly as the caller
  gave it (so \<open>latest\<close> stays \<open>latest\<close>) and with the direction and the tier-adjusted
  minimum score and limit that Firestore was given; when BigQuery answers with a scan date,
  that date is the \<open>scan_date\<close> of the response. When Firestore returns a non-empty list,
  Firestore is the only call: BigQuery is never called.
\<close>

theorem fallback_only_when_primary_empty:
  assumes tier: "get_user_tier kwargs = Inr tier"
  shows "let ms = effective_min_score tier min_score;
             l = effective_limit tier limit;
             primary = fs_get_overnight_signals env (resolve_date env date) direction ms l;
             fallback = bq_get_overnight_signals env date direction ms l;
             result = get_overnight_signals env direction min_score limit date kwargs h;
             calls = snd (snd result)
         in (primary = Inr [] \<longrightarrow>
               calls = [FsSignals (resolve_date env date) direction ms l,
                        BqSignals date direction ms l] \<and>
               length (filter is_bq_call calls) = 1 \<and>
               (\<forall>bq_res d. fallback = Inr bq_res \<and> res_scan_date bq_res = Some d \<longrightarrow>
                  (\<exists>resp. fst result = Inr resp \<and> dict_get resp ''scan_date'' = Some (VStr d)))) \<and>
            (\<forall>sigs. primary = Inr sigs \<and> sigs \<noteq> [] \<longrightarrow>
               calls = [FsSignals (resolve_date env date) direction ms l] \<and>
               filter is_bq_call calls = [])"
proof -
  let ?ms = "effective_min_score tier min_score"
  let ?l = "effective_limit tier limit"
  let ?primary = "fs_get_overnight_signals env (resolve_date env date) direction ?ms ?l"
  let ?fallback = "bq_get_overnight_signals env date direction ?ms ?l"
  let ?result = "get_overnight_signals env direction min_score limit date kwargs h"
  have calls: "snd (snd ?result) =
     FsSignals (resolve_date env date) direction ?ms ?l #
     (if ?primary = Inr [] then [BqSignals date direction ?ms ?l] else [])"
    by (simp only: signals_calls [OF tier] fetch_signals_calls)
  have adopt: "\<exists>resp. fst ?result = Inr resp \<and> dict_get resp ''scan_date'' = Some (VStr d)"
    if "?primary = Inr []" "?fallback = Inr bq_res" "res_scan_date bq_res = Some d" for bq_res d
  proof -
    from that have "fst (fetch_signals env date direction ?ms ?l) =
        Inr (case res_items bq_res of None \<Rightarrow> [] | Some items \<Rightarrow> items, d)"
      by (simp add: fetch_signals_fallback)
    then show ?thesis by (rule signals_result_scan_date [OF tier])
  qed
  from calls adopt show ?thesis
    unfolding Let_def by auto
qed

theorem fallback_only_when_primary_empty_witness:
  "get_user_tier kw_edge = Inr (VStr ''EDGE'') \<and>
   fs_get_overnight_signals mock_env_empty_fs ''2026-01-05'' ''ALL'' 5 20 = Inr [] \<and>
   bq_get_overnight_signals mock_env_empty_fs ''latest'' ''ALL'' 5 20 =
     Inr \<lparr> res_items = Some [1], res_scan_date = Some ''2026-01-02'' \<rparr> \<and>
   snd (snd (get_overnight_signals mock_env_empty_fs ''ALL'' 5 20 ''latest'' kw_edge mock_heap)) =
     [FsSignals ''2026-01-05'' ''ALL'' 5 20, BqSignals ''latest'' ''ALL'' 5 20] \<and>
   (\<exists>resp. fst (get_overnight_signals mock_env_empty_fs ''ALL'' 5 20 ''latest'' kw_edge mock_heap) =
            Inr resp \<and> dict_get resp ''scan_date'' = Some (VStr ''2026-01-02'')) \<and>
   fs_get_overnight_signals mock_env ''2026-01-05'' ''ALL'' 5 20 = Inr [0, 1] \<and>
   snd (snd (get_overnight_signals mock_env ''ALL'' 5 20 ''latest'' kw_edge mock_heap)) =
     [FsSignals ''2026-01-05'' ''ALL'' 5 20]"
proof -
  have t: "get_user_tier kw_edge = Inr (VStr ''EDGE'')"
    by (simp add: get_user_tier_def kw_edge_def dict_get_def)
  have eff: "effective_min_score (VStr ''EDGE'') 5 = 5" "effective_limit (VStr ''EDGE'') 20 = 20"
    by (simp_all add: effective_min_score_def effective_limit_def)
  have rd: "resolve_date mock_env_empty_fs ''latest'' = ''2026-01-05''"
    "resolve_date mock_env ''latest'' = ''2026-01-05''"
    by (simp_all add: resolve_date_def mock_env_empty_fs_def mock_env_def)
  have p1: "fs_get_overnight_signals mock_env_empty_fs ''2026-01-05'' ''ALL'' 5 20 = Inr []"
    by (simp add: mock_env_empty_fs_def mock_env_def)
  have f1: "bq_get_overnight_signals mock_env_empty_fs ''latest'' ''ALL'' 5 20 =
     Inr \<lparr> res_items = Some [1], res_scan_date = Some ''2026-01-02'' \<rparr>"
    by (simp add: mock_env_empty_fs_def mock_env_def)
  have p2: "fs_get_overnight_signals mock_env ''2026-01-05'' ''ALL'' 5 20 = Inr [0, 1]"
    by (simp add: mock_env_def)
  note a = fallback_only_when_primary_empty
             [OF t, of 5 20 mock_env_empty_fs "''latest''" "''ALL''" mock_heap,
              unfolded Let_def eff rd]
  note b = fallback_only_when_primary_empty
             [OF t, of 5 20 mock_env "''latest''" "''ALL''" mock_heap, unfolded Let_def eff rd]
  from a p1 f1 have a1:
    "snd (snd (get_overnight_signals mock_env_empty_fs ''ALL'' 5 20 ''latest'' kw_edge mock_heap)) =
       [FsSignals ''2026-01-05'' ''ALL'' 5 20, BqSignals ''latest'' ''ALL'' 5 20]"
    and a2: "\<exists>resp. fst (get_overnight_signals mock_env_empty_fs ''ALL'' 5 20 ''latest'' kw_edge mock_heap) =
            Inr resp \<and> dict_get resp ''scan_date'' = Some (VStr ''2026-01-02'')"
    by simp_all
  from b p2 have b1:
    "snd (snd (get_overnight_signals mock_env ''ALL'' 5 20 ''latest'' kw_edge mock_heap)) =
       [FsSignals ''2026-01-05'' ''ALL'' 5 20]"
    by simp
  from t p1 f1 a1 a2 p2 b1 show ?thesis by simp
qed

section \<open>The store's records are never modified\<close>

lemma effective_free:
  "effective_min_score (VStr ''FREE'') min_score = max min_score 7"
  "effective_limit (VStr ''FREE'') limit = min limit 10"
  by (simp_all add: effective_min_score_def effective_limit_def)


lemma signals_heap_cases:
  "fst (snd (get_overnight_signals env direction min_score limit date kwargs h)) = h \<or>
   (\<exists>sigs. fst (snd (get_overnight_signals env direction min_score limit date kwargs h)) =
            snd (copy_strip paid_fields sigs [] h))"
proof (cases "get_user_tier kwargs")
  case (Inl e)
  then show ?thesis by (simp add: get_overnight_signals_def)
next
  case (Inr tier)
  show ?thesis
    unfolding get_overnight_signals_eq [OF Inr]
    by (auto split: prod.splits sum.splits)
qed

lemma themes_heap_cases:
  "fst (snd (get_market_themes env date kwargs h)) = h \<or>
   (\<exists>ts. fst (snd (get_market_themes env date kwargs h)) =
          snd (copy_strip [''tickers''] ts [] h))"
proof (cases "get_user_tier kwargs")
  case (Inl e)
  then show ?thesis by (simp add: get_market_themes_def)
next
  case (Inr tier)
  show ?thesis
    unfolding get_market_themes_eq [OF Inr]
    by (auto split: prod.splits sum.splits)
qed

lemma copy_strip_frame:
  "length h \<le> length (snd (copy_strip ks as acc h)) \<and>
   (\<forall>a < length h. snd (copy_strip ks as acc h) ! a = h ! a)"
  by (simp add: copy_strip_length copy_strip_old)

text \<open>
  Claim C5. \<open>get_overnight_signals\<close> leaves every object that was on the heap before the
  call as it was, for every tier and every outcome: the heap only grows. For the FREE tier
  each listed signal is a new object, allocated during the call, and it holds the entries
  of the store's object it was copied from, minus the paid fields.
\<close>

theorem signals_never_mutated:
  assumes res: "get_overnight_signals env direction min_score limit date kwargs h = (res, h', calls)"
  shows "length h \<le> length h' \<and> (\<forall>a < length h. h' ! a = h ! a) \<and>
         (\<forall>resp. get_user_tier kwargs = Inr (VStr ''FREE'') \<and> res = Inr resp \<longrightarrow>
            (\<exists>sigs qd refs.
               fst (fetch_signals env date direction (max min_score 7) (min limit 10)) =
                 Inr (sigs, qd) \<and>
               dict_get resp ''signals'' = Some (VList (map VRef refs)) \<and>
               length refs = length sigs \<and>
               (\<forall>i < length sigs.
                  length h \<le> refs ! i \<and> refs ! i < length h' \<and>
                  (sigs ! i < length h \<longrightarrow>
                     h' ! (refs ! i) = strip_fields paid_fields (h ! (sigs ! i))))))"
proof (intro conjI allI impI)
  from res have h': "h' = fst (snd (get_overnight_signals env direction min_score limit date kwargs h))"
    by simp
  from signals_heap_cases [of env direction min_score limit date kwargs h]
  have frame: "length h \<le> length h' \<and> (\<forall>a < length h. h' ! a = h ! a)"
    unfolding h' [symmetric] using copy_strip_frame [of h paid_fields _ "[]"] by auto
  from frame show "length h \<le> length h'" by simp
  fix a assume "a < length h"
  with frame show "h' ! a = h ! a" by simp
next
  fix resp
  assume a: "get_user_tier kwargs = Inr (VStr ''FREE'') \<and> res = Inr resp"
  then have tier: "get_user_tier kwargs = Inr (VStr ''FREE'')" and r: "res = Inr resp" by simp_all
  let ?f = "fetch_signals env date direction (max min_score 7) (min limit 10)"
  from res r obtain sigs qd where f: "?f = (Inr (sigs, qd), calls)"
    unfolding get_overnight_signals_eq [OF tier] effective_free
    by (auto split: prod.splits sum.splits)
  let ?refs = "[length h ..< length h + length sigs]"
  from res r f have resp: "resp = signals_response (VStr ''FREE'') qd ?refs"
    and h': "h' = snd (copy_strip paid_fields sigs [] h)"
    unfolding get_overnight_signals_eq [OF tier] effective_free by simp_all
  have "length h \<le> ?refs ! i \<and> ?refs ! i < length h' \<and>
        (sigs ! i < length h \<longrightarrow> h' ! (?refs ! i) = strip_fields paid_fields (h ! (sigs ! i)))"
    if "i < length sigs" for i
    using that by (simp add: h' copy_strip_length copy_strip_nth)
  with f resp
  show "\<exists>sigs qd refs.
          fst ?f = Inr (sigs, qd) \<and>
          dict_get resp ''signals'' = Some (VList (map VRef refs)) \<and>
          length refs = length sigs \<and>
          (\<forall>i < length sigs.
             length h \<le> refs ! i \<and> refs ! i < length h' \<and>
             (sigs ! i < length h \<longrightarrow>
                h' ! (refs ! i) = strip_fields paid_fields (h ! (sigs ! i))))"
    by (intro exI [of _ sigs] exI [of _ qd] exI [of _ ?refs])
       (simp add: dict_get_signals_response)
qed

theorem signals_never_mutated_witness:
  "get_overnight_signals mock_env ''ALL'' 5 20 ''latest'' kw_free mock_heap =
     (Inr (signals_response (VStr ''FREE'') ''2026-01-05'' [3, 4]),
      mock_heap @ stripped_signals, [FsSignals ''2026-01-05'' ''ALL'' 7 10]) \<and>
   get_user_tier kw_free = Inr (VStr ''FREE'') \<and>
   length mock_heap = 3 \<and>
   (mock_heap @ stripped_signals) ! 0 = mock_heap ! 0 \<and>
   (mock_heap @ stripped_signals) ! 1 = mock_heap ! 1 \<and>
   (mock_heap @ stripped_signals) ! 2 = mock_heap ! 2 \<and>
   (mock_heap @ stripped_signals) ! 3 = strip_fields paid_fields (mock_heap ! 0) \<and>
   (mock_heap @ stripped_signals) ! 3 \<noteq> mock_heap ! 0"
proof -
  have t: "get_user_tier kw_free = Inr (VStr ''FREE'')"
    by (simp add: get_user_tier_def kw_free_def dict_get_def)
  note a = signals_never_mutated [OF mock_free_signals]
  have len: "length mock_heap = 3" by (simp add: mock_heap_def)
  from a len have old: "(mock_heap @ stripped_signals) ! 0 = mock_heap ! 0"
    "(mock_heap @ stripped_signals) ! 1 = mock_heap ! 1"
    "(mock_heap @ stripped_signals) ! 2 = mock_heap ! 2"
    by simp_all
  have new: "(mock_heap @ stripped_signals) ! 3 = strip_fields paid_fields (mock_heap ! 0)"
    "(mock_heap @ stripped_signals) ! 3 \<noteq> mock_heap ! 0"
    by (simp_all add: mock_heap_def stripped_signals_def strip_fields_def paid_fields_def)
  from mock_free_signals t len old new show ?thesis by simp
qed

section \<open>Redaction of the themes\<close>

lemma dict_get_themes_response:
  "dict_get (themes_response qd themes) ''themes'' = Some (VList (map VRef themes))"
  by (simp add: themes_response_def dict_get_def)

text \<open>
  Claim C7. When \<open>get_market_themes\<close> returns a response, its \<open>themes\<close> entry lists one
  object per theme fetched from the stores, and every object that was on the heap before
  the call is as it was. For a caller of the FREE tier each listed theme is a new object
  without the key \<open>tickers\<close>, and every other key (the name among them) has the value it
  has in the store's object. For every other tier the listed objects are the store's own
  and the heap is unchanged.
\<close>

theorem theme_redaction:
  assumes tier: "get_user_tier kwargs = Inr tier"
      and res: "get_market_themes env date kwargs h = (Inr resp, h', calls)"
  shows "\<exists>themes qd refs.
           fst (fetch_themes env date) = Inr (themes, qd) \<and>
           dict_get resp ''themes'' = Some (VList (map VRef refs)) \<and>
           length refs = length themes \<and>
           length h \<le> length h' \<and> (\<forall>a < length h. h' ! a = h ! a) \<and>
           (if tier = VStr ''FREE''
            then (\<forall>i < length themes.
                    length h \<le> refs ! i \<and> refs ! i < length h' \<and>
                    \<not> has_key (h' ! (refs ! i)) ''tickers'' \<and>
                    (themes ! i < length h \<longrightarrow>
                       (\<forall>k. k \<noteq> ''tickers'' \<longrightarrow>
                          dict_get (h' ! (refs ! i)) k = dict_get (h ! (themes ! i)) k)))
            else refs = themes \<and> h' = h)"
proof -
  from res obtain themes qd where f: "fetch_themes env date = (Inr (themes, qd), calls)"
    unfolding get_market_themes_eq [OF tier]
    by (auto split: prod.splits sum.splits if_splits)
  from res have "h' = fst (snd (get_market_themes env date kwargs h))" by simp
  with themes_heap_cases [of env date kwargs h]
  have frame: "length h \<le> length h' \<and> (\<forall>a < length h. h' ! a = h ! a)"
    using copy_strip_frame [of h "[''tickers'']" _ "[]"] by auto
  show ?thesis
  proof (cases "tier = VStr ''FREE''")
    case True
    let ?refs = "[length h ..< length h + length themes]"
    from res f True have resp: "resp = themes_response qd ?refs"
      and h': "h' = snd (copy_strip [''tickers''] themes [] h)"
      unfolding get_market_themes_eq [OF tier] by simp_all
    have "length h \<le> ?refs ! i \<and> ?refs ! i < length h' \<and>
          \<not> has_key (h' ! (?refs ! i)) ''tickers'' \<and>
          (themes ! i < length h \<longrightarrow>
             (\<forall>k. k \<noteq> ''tickers'' \<longrightarrow>
                dict_get (h' ! (?refs ! i)) k = dict_get (h ! (themes ! i)) k))"
      if "i < length themes" for i
      using that
      by (simp add: h' copy_strip_length copy_strip_nth copy_strip_stripped dict_get_strip)
    with f True resp frame show ?thesis
      by (intro exI [of _ themes] exI [of _ qd] exI [of _ ?refs])
         (simp add: dict_get_themes_response)
  next
    case False
    with res f have "resp = themes_response qd themes" and "h' = h"
      unfolding get_market_themes_eq [OF tier] by simp_all
    with f False show ?thesis
      by (intro exI [of _ themes] exI [of _ qd] exI [of _ themes])
         (simp add: dict_get_themes_response)
  qed
qed

lemma mock_fetch_themes:
  "fetch_themes mock_env ''latest'' = (Inr ([2], ''2026-01-05''), [FsThemes ''2026-01-05''])"
  by (simp add: fetch_themes_def mock_env_def Let_def)

lemma mock_strip_themes:
  "snd (copy_strip [''tickers''] [2] [] mock_heap) = mock_heap @ [[(''name'', VStr ''AI'')]]"
proof -
  have "\<forall>a \<in> set [2::nat]. a < length mock_heap" by (simp add: mock_heap_def)
  then have "snd (copy_strip [''tickers''] [2] [] mock_heap) =
      mock_heap @ map (\<lambda>a. strip_fields [''tickers''] (mock_heap ! a)) [2]"
    by (rule copy_strip_heap)
  also have "map (\<lambda>a. strip_fields [''tickers''] (mock_heap ! a)) [2] = [[(''name'', VStr ''AI'')]]"
    by (simp add: mock_heap_def strip_fields_def)
  finally show ?thesis .
qed

lemma mock_free_themes:
  "get_market_themes mock_env ''latest'' kw_free mock_heap =
     (Inr (themes_response ''2026-01-05'' [3]),
      mock_heap @ [[(''name'', VStr ''AI'')]], [FsThemes ''2026-01-05''])"
proof -
  have len: "[length mock_heap ..< length mock_heap + length [2::nat]] = [3]"
    by (simp add: mock_heap_def upt_rec)
  show ?thesis
    unfolding get_market_themes_eq [OF tier_kw_free] mock_fetch_themes
    by (simp only: prod.case sum.case len mock_strip_themes refl if_True)
qed

lemma mock_edge_themes:
  "get_market_themes mock_env ''latest'' kw_edge mock_heap =
     (Inr (themes_response ''2026-01-05'' [2]), mock_heap, [FsThemes ''2026-01-05''])"
proof -
  have ne: "(VStr ''EDGE'' = VStr ''FREE'') = False" by simp
  show ?thesis
    unfolding get_market_themes_eq [OF tier_kw_edge] mock_fetch_themes
    by (simp only: prod.case sum.case ne if_False)
qed

theorem theme_redaction_witness:
  "get_user_tier kw_free = Inr (VStr ''FREE'') \<and>
   get_market_themes mock_env ''latest'' kw_free mock_heap =
     (Inr (themes_response ''2026-01-05'' [3]),
      mock_heap @ [[(''name'', VStr ''AI'')]], [FsThemes ''2026-01-05'']) \<and>
   dict_get (themes_response ''2026-01-05'' [3]) ''themes'' = Some (VList [VRef 3]) \<and>
   has_key (mock_heap ! 2) ''tickers'' \<and>
   \<not> has_key ((mock_heap @ [[(''name'', VStr ''AI'')]]) ! 3) ''tickers'' \<and>
   dict_get ((mock_heap @ [[(''name'', VStr ''AI'')]]) ! 3) ''name'' = Some (VStr ''AI'') \<and>
   (mock_heap @ [[(''name'', VStr ''AI'')]]) ! 2 = mock_heap ! 2 \<and>
   get_user_tier kw_edge = Inr (VStr ''EDGE'') \<and>
   get_market_themes mock_env ''latest'' kw_edge mock_heap =
     (Inr (themes_response ''2026-01-05'' [2]), mock_heap, [FsThemes ''2026-01-05'']) \<and>
   dict_get (themes_response ''2026-01-05'' [2]) ''themes'' = Some (VList [VRef 2])"
proof -
  have t1: "get_user_tier kw_free = Inr (VStr ''FREE'')"
    by (simp add: get_user_tier_def kw_free_def dict_get_def)
  have t2: "get_user_tier kw_edge = Inr (VStr ''EDGE'')"
    by (simp add: get_user_tier_def kw_edge_def dict_get_def)
  note a = theme_redaction [OF t1 mock_free_themes]
  note b = theme_redaction [OF t2 mock_edge_themes]
  have c: "has_key (mock_heap ! 2) ''tickers'' \<and>
     \<not> has_key ((mock_heap @ [[(''name'', VStr ''AI'')]]) ! 3) ''tickers'' \<and>
     dict_get ((mock_heap @ [[(''name'', VStr ''AI'')]]) ! 3) ''name'' = Some (VStr ''AI'') \<and>
     (mock_heap @ [[(''name'', VStr ''AI'')]]) ! 2 = mock_heap ! 2"
    by (simp add: mock_heap_def has_key_def dict_get_def)
  from a b c t1 t2 mock_free_themes mock_edge_themes
  show ?thesis by (simp add: dict_get_themes_response)
qed

section \<open>Signal detail: found or not found\<close>

text \<open>
  Claim C8. For a caller of any tier other than FREE, \<open>get_signal_detail\<close> returns the
  dictionary \<open>{error: Signal not found, ticker: ...}\<close> as a normal result when Firestore
  and then BigQuery both return no record; it returns Firestore's record when Firestore
  has one, and BigQuery's record when Firestore has none and BigQuery has one. A record is
  a dictionary with at least one entry: the code tells a record from none by Python's truth
  test, for which \<open>None\<close> and the empty dictionary are both false.
\<close>

theorem detail_found_or_not_found:
  assumes tier: "get_user_tier kwargs = Inr tier" and paid: "tier \<noteq> VStr ''FREE''"
  shows "let primary = fs_get_signal_detail env ticker (resolve_date env date);
             fallback = bq_get_signal_detail env ticker date;
             result = fst (get_signal_detail env ticker date kwargs)
         in (\<forall>s1 s2. primary = Inr s1 \<and> \<not> truthy s1 \<and> fallback = Inr s2 \<and> \<not> truthy s2 \<longrightarrow>
               result = Inr (signal_not_found ticker)) \<and>
            (\<forall>d. primary = Inr (Some d) \<and> d \<noteq> [] \<longrightarrow> result = Inr d) \<and>
            (\<forall>s1 d. primary = Inr s1 \<and> \<not> truthy s1 \<and> fallback = Inr (Some d) \<and> d \<noteq> [] \<longrightarrow>
               result = Inr d) \<and>
            dict_get (signal_not_found ticker) ''error'' = Some (VStr ''Signal not found'') \<and>
            dict_get (signal_not_found ticker) ''ticker'' = Some (VStr ticker)"
  using tier paid
  unfolding get_signal_detail_def resolve_date_def Let_def
  by (auto simp: detail_result_def signal_not_found_def dict_get_def split: option.splits)

theorem detail_found_or_not_found_witness:
  "get_user_tier kw_edge = Inr (VStr ''EDGE'') \<and> VStr ''EDGE'' \<noteq> VStr ''FREE'' \<and>
   fs_get_signal_detail mock_env_empty_fs ''FSLY'' ''2026-01-05'' = Inr None \<and>
   bq_get_signal_detail mock_env_empty_fs ''FSLY'' ''latest'' = Inr None \<and>
   fst (get_signal_detail mock_env_empty_fs ''FSLY'' ''latest'' kw_edge) =
     Inr [(''error'', VStr ''Signal not found''), (''ticker'', VStr ''FSLY'')] \<and>
   fst (get_signal_detail mock_env ''FSLY'' ''latest'' kw_edge) =
     Inr [(''ticker'', VStr ''FSLY''), (''data'', VStr ''full'')] \<and>
   fst (get_signal_detail mock_env_bq_detail ''FSLY'' ''latest'' kw_edge) =
     Inr [(''ticker'', VStr ''FSLY''), (''scan_date'', VStr ''2026-01-02'')]"
proof -
  have t: "get_user_tier kw_edge = Inr (VStr ''EDGE'')"
    by (simp add: get_user_tier_def kw_edge_def dict_get_def)
  have p: "VStr ''EDGE'' \<noteq> VStr ''FREE''" by simp
  have rd: "resolve_date mock_env_empty_fs ''latest'' = ''2026-01-05''"
    "resolve_date mock_env ''latest'' = ''2026-01-05''"
    "resolve_date mock_env_bq_detail ''latest'' = ''2026-01-05''"
    by (simp_all add: resolve_date_def mock_env_bq_detail_def mock_env_empty_fs_def mock_env_def)
  have s1: "fs_get_signal_detail mock_env_empty_fs ''FSLY'' ''2026-01-05'' = Inr None"
    "bq_get_signal_detail mock_env_empty_fs ''FSLY'' ''latest'' = Inr None"
    by (simp_all add: mock_env_empty_fs_def mock_env_def)
  have s2: "fs_get_signal_detail mock_env ''FSLY'' ''2026-01-05'' =
      Inr (Some [(''ticker'', VStr ''FSLY''), (''data'', VStr ''full'')])"
    by (simp add: mock_env_def)
  have s3: "fs_get_signal_detail mock_env_bq_detail ''FSLY'' ''2026-01-05'' = Inr None"
    "bq_get_signal_detail mock_env_bq_detail ''FSLY'' ''latest'' =
       Inr (Some [(''ticker'', VStr ''FSLY''), (''scan_date'', VStr ''2026-01-02'')])"
    by (simp_all add: mock_env_bq_detail_def mock_env_empty_fs_def mock_env_def)
  note a = detail_found_or_not_found [OF t p, of mock_env_empty_fs "''FSLY''" "''latest''",
             unfolded Let_def rd]
  note b = detail_found_or_not_found [OF t p, of mock_env "''FSLY''" "''latest''",
             unfolded Let_def rd]
  note c = detail_found_or_not_found [OF t p, of mock_env_bq_detail "''FSLY''" "''latest''",
             unfolded Let_def rd]
  from a s1 have r1: "fst (get_signal_detail mock_env_empty_fs ''FSLY'' ''latest'' kw_edge) =
     Inr (signal_not_found ''FSLY'')" by simp
  from b s2 have r2: "fst (get_signal_detail mock_env ''FSLY'' ''latest'' kw_edge) =
     Inr [(''ticker'', VStr ''FSLY''), (''data'', VStr ''full'')]" by simp
  from c s3 have r3: "fst (get_signal_detail mock_env_bq_detail ''FSLY'' ''latest'' kw_edge) =
     Inr [(''ticker'', VStr ''FSLY''), (''scan_date'', VStr ''2026-01-02'')]" by simp
  from t p s1 r1 r2 r3 show ?thesis by (simp add: signal_not_found_def)
qed

section \<open>The date called latest\<close>

lemma fetch_themes_calls:
  "snd (fetch_themes env date) =
     FsThemes (resolve_date env date) #
     (if fs_get_market_themes env (resolve_date env date) = Inr [] then [BqThemes date] else [])"
  by (simp add: fetch_themes_def resolve_date_def Let_def split: sum.splits)

lemma themes_calls:
  "get_user_tier kwargs = Inr tier \<Longrightarrow>
   snd (snd (get_market_themes env date kwargs h)) = snd (fetch_themes env date)"
  by (simp add: get_market_themes_def split: prod.splits sum.splits)

lemma detail_calls:
  "get_user_tier kwargs = Inr tier \<Longrightarrow> tier \<noteq> VStr ''FREE'' \<Longrightarrow>
   snd (get_signal_detail env ticker date kwargs) =
     FsDetail ticker (resolve_date env date) #
     (if \<exists>s. fs_get_signal_detail env ticker (resolve_date env date) = Inr s \<and> \<not> truthy s
      then [BqDetail ticker date] else [])"
  unfolding get_signal_detail_def resolve_date_def Let_def
  by (auto split: sum.splits)

lemma resolve_latest: "resolve_date env ''latest'' = today env"
  by (simp add: resolve_date_def)

text \<open>
  Claim C9. With the date argument \<open>latest\<close>, the first call of \<open>get_overnight_signals\<close>
  and of \<open>get_market_themes\<close>, and of \<open>get_signal_detail\<close> for a tier other than FREE, is
  the Firestore query, and its date is today's date, whatever the stores hold; no later
  call goes to Firestore.
\<close>

theorem latest_resolves_to_today:
  assumes tier: "get_user_tier kwargs = Inr tier"
  shows "(\<exists>rest. snd (snd (get_overnight_signals env direction min_score limit ''latest'' kwargs h)) =
            FsSignals (today env) direction
              (effective_min_score tier min_score) (effective_limit tier limit) # rest \<and>
            filter is_fs_call rest = []) \<and>
         (\<exists>rest. snd (snd (get_market_themes env ''latest'' kwargs h)) =
            FsThemes (today env) # rest \<and> filter is_fs_call rest = []) \<and>
         (tier \<noteq> VStr ''FREE'' \<longrightarrow>
            (\<exists>rest. snd (get_signal_detail env ticker ''latest'' kwargs) =
               FsDetail ticker (today env) # rest \<and> filter is_fs_call rest = []))"
proof (intro conjI impI)
  show "\<exists>rest. snd (snd (get_overnight_signals env direction min_score limit ''latest'' kwargs h)) =
            FsSignals (today env) direction
              (effective_min_score tier min_score) (effective_limit tier limit) # rest \<and>
            filter is_fs_call rest = []"
    by (simp add: signals_calls [OF tier] fetch_signals_calls resolve_latest)
  show "\<exists>rest. snd (snd (get_market_themes env ''latest'' kwargs h)) =
            FsThemes (today env) # rest \<and> filter is_fs_call rest = []"
    by (simp add: themes_calls [OF tier] fetch_themes_calls resolve_latest)
  assume "tier \<noteq> VStr ''FREE''"
  then show "\<exists>rest. snd (get_signal_detail env ticker ''latest'' kwargs) =
               FsDetail ticker (today env) # rest \<and> filter is_fs_call rest = []"
    by (simp add: detail_calls [OF tier] resolve_latest)
qed

theorem latest_resolves_to_today_witness:
  "get_user_tier kw_edge = Inr (VStr ''EDGE'') \<and> VStr ''EDGE'' \<noteq> VStr ''FREE'' \<and>
   today mock_env_empty_fs = ''2026-01-05'' \<and>
   snd (snd (get_overnight_signals mock_env_empty_fs ''ALL'' 5 20 ''latest'' kw_edge mock_heap)) =
     [FsSignals ''2026-01-05'' ''ALL'' 5 20, BqSignals ''latest'' ''ALL'' 5 20] \<and>
   snd (snd (get_market_themes mock_env_empty_fs ''latest'' kw_edge mock_heap)) =
     [FsThemes ''2026-01-05'', BqThemes ''latest''] \<and>
   snd (get_signal_detail mock_env_empty_fs ''FSLY'' ''latest'' kw_edge) =
     [FsDetail ''FSLY'' ''2026-01-05'', BqDetail ''FSLY'' ''latest'']"
proof -
  have t: "get_user_tier kw_edge = Inr (VStr ''EDGE'')"
    by (simp add: get_user_tier_def kw_edge_def dict_get_def)
  have p: "VStr ''EDGE'' \<noteq> VStr ''FREE''" by simp
  have td: "today mock_env_empty_fs = ''2026-01-05''"
    by (simp add: mock_env_empty_fs_def mock_env_def)
  note a = latest_resolves_to_today
             [OF t, of mock_env_empty_fs "''ALL''" 5 20 mock_heap "''FSLY''", unfolded td]
  have c1: "snd (snd (get_overnight_signals mock_env_empty_fs ''ALL'' 5 20 ''latest'' kw_edge mock_heap)) =
     [FsSignals ''2026-01-05'' ''ALL'' 5 20, BqSignals ''latest'' ''ALL'' 5 20]"
    by (simp add: signals_calls [OF t] fetch_signals_calls effective_min_score_def
          effective_limit_def resolve_date_def mock_env_empty_fs_def mock_env_def)
  have c2: "snd (snd (get_market_themes mock_env_empty_fs ''latest'' kw_edge mock_heap)) =
     [FsThemes ''2026-01-05'', BqThemes ''latest'']"
    by (simp add: themes_calls [OF t] fetch_themes_calls resolve_date_def
          mock_env_empty_fs_def mock_env_def)
  have c3: "snd (get_signal_detail mock_env_empty_fs ''FSLY'' ''latest'' kw_edge) =
     [FsDetail ''FSLY'' ''2026-01-05'', BqDetail ''FSLY'' ''latest'']"
    by (simp add: detail_calls [OF t p] resolve_date_def mock_env_empty_fs_def mock_env_def)
  from a t p td c1 c2 c3 show ?thesis by simp
qed

section \<open>The tier gate\<close>







end
